theory Spec2Isabelle
  imports Main
begin

section \<open>Python values\<close>

text \<open>
  The program reads two JSON documents: the service-binding document of the environment
  variable VCAP_SERVICES and the bodies of the vCenter REST responses. Both reach the code
  as the values \<^verbatim>\<open>json.loads\<close> / \<^verbatim>\<open>response.json()\<close> build: None, bool, int, str,
  list and dict. A dict is an association list in insertion order (the order
  \<^verbatim>\<open>dict.items()\<close> iterates in); its keys are distinct, so a lookup is \<open>map_of\<close>.
  Characters are bytes: \<^verbatim>\<open>str.lower\<close> and the whitespace and digits of \<^verbatim>\<open>int\<close> are
  modelled on ASCII. JSON numbers with a fraction or an exponent (Python floats) are not
  represented.
\<close>

datatype json =
    JNull
  | JBool bool
  | JNum int
  | JStr string
  | JList "json list"
  | JObj "(string \<times> json) list"

text \<open>The exceptions the modelled code can meet; every \<^verbatim>\<open>raise\<close> is an \<open>Inl\<close>.\<close>

datatype error =
    ValueError
  | AttributeError
  | TypeError
  | RequestFailed

text \<open>\<^verbatim>\<open>bool(v)\<close>: the truth value Python gives a value in \<^verbatim>\<open>if v\<close> and \<^verbatim>\<open>all([...])\<close>.\<close>

fun truthy :: "json \<Rightarrow> bool" where
  "truthy JNull = False"
| "truthy (JBool b) = b"
| "truthy (JNum n) = (n \<noteq> 0)"
| "truthy (JStr s) = (s \<noteq> [])"
| "truthy (JList xs) = (xs \<noteq> [])"
| "truthy (JObj kvs) = (kvs \<noteq> [])"

text \<open>\<^verbatim>\<open>d.get(key, default)\<close>: only a dict has the method; anything else raises AttributeError.\<close>

fun py_get :: "json \<Rightarrow> string \<Rightarrow> json \<Rightarrow> error + json" where
  "py_get (JObj kvs) key dflt = Inr (case map_of kvs key of None \<Rightarrow> dflt | Some v \<Rightarrow> v)"
| "py_get _ key dflt = Inl AttributeError"

text \<open>\<^verbatim>\<open>for x in v\<close>: a list yields its items, a str its characters, a dict its keys.\<close>

fun py_iter :: "json \<Rightarrow> error + json list" where
  "py_iter (JList xs) = Inr xs"
| "py_iter (JStr s) = Inr (map (\<lambda>c. JStr [c]) s)"
| "py_iter (JObj kvs) = Inr (map (\<lambda>kv. JStr (fst kv)) kvs)"
| "py_iter _ = Inl TypeError"

text \<open>\<^verbatim>\<open>len(v)\<close>.\<close>

fun py_len :: "json \<Rightarrow> error + nat" where
  "py_len (JList xs) = Inr (length xs)"
| "py_len (JStr s) = Inr (length s)"
| "py_len (JObj kvs) = Inr (length kvs)"
| "py_len _ = Inl TypeError"

text \<open>
  \<^verbatim>\<open>str.lower\<close> on ASCII: a letter from A (65) to Z (90) moves up by 32, which is
  setting bit 5 of its code (the bit is clear in all of them).
\<close>

definition lower_char :: "char \<Rightarrow> char" where
  "lower_char c =
     (let n = (of_char c :: nat) in
      if 65 \<le> n \<and> n \<le> 90
      then (case c of Char b0 b1 b2 b3 b4 b5 b6 b7 \<Rightarrow> Char b0 b1 b2 b3 b4 True b6 b7)
      else c)"

definition lower :: "string \<Rightarrow> string" where
  "lower s = map lower_char s"

text \<open>\<^verbatim>\<open>v.lower()\<close> on a value that need not be a str.\<close>

fun py_lower :: "json \<Rightarrow> error + string" where
  "py_lower (JStr s) = Inr (lower s)"
| "py_lower _ = Inl AttributeError"

text \<open>\<^verbatim>\<open>keyword in s\<close> on two strs: \<open>keyword\<close> occurs in \<open>s\<close> as a contiguous run.\<close>

fun str_contains :: "string \<Rightarrow> string \<Rightarrow> bool" where
  "str_contains keyword [] = (keyword = [])"
| "str_contains keyword (c # cs) =
     (take (length keyword) (c # cs) = keyword \<or> str_contains keyword cs)"

text \<open>\<^verbatim>\<open>s.rstrip('/')\<close>: every trailing slash goes.\<close>

definition rstrip_slash :: "string \<Rightarrow> string" where
  "rstrip_slash s = rev (dropWhile (\<lambda>c. c = CHR ''/'') (rev s))"

subsection \<open>\<^verbatim>\<open>int(s)\<close> on a str\<close>

text \<open>
  \<^verbatim>\<open>int\<close> strips whitespace at both ends, reads an optional sign and then decimal digits,
  where single underscores may stand between two digits; anything else is a ValueError.
  (The interpreter's limit on the number of digits is not modelled; beyond it \<^verbatim>\<open>int\<close>
  raises ValueError as for any other rejected text.)
\<close>

definition is_space :: "char \<Rightarrow> bool" where
  "is_space c = (let n = (of_char c :: nat) in (9 \<le> n \<and> n \<le> 13) \<or> n = 32)"

definition is_digit :: "char \<Rightarrow> bool" where
  "is_digit c = (let n = (of_char c :: nat) in 48 \<le> n \<and> n \<le> 57)"

definition digit_val :: "char \<Rightarrow> int" where
  "digit_val c = int (of_char c) - 48"

definition strip :: "string \<Rightarrow> string" where
  "strip s = rev (dropWhile is_space (rev (dropWhile is_space s)))"

text \<open>The digits after the first one; \<open>acc\<close> is the value read so far.\<close>

fun more_digits :: "int \<Rightarrow> string \<Rightarrow> error + int" where
  "more_digits acc [] = Inr acc"
| "more_digits acc [c] = (if is_digit c then Inr (10 * acc + digit_val c) else Inl ValueError)"
| "more_digits acc (c # d # ds) =
     (if is_digit c then more_digits (10 * acc + digit_val c) (d # ds)
      else if c = CHR ''_'' \<and> is_digit d then more_digits (10 * acc + digit_val d) ds
      else Inl ValueError)"

definition digits :: "string \<Rightarrow> error + int" where
  "digits s =
     (case s of
        [] \<Rightarrow> Inl ValueError
      | c # cs \<Rightarrow> if is_digit c then more_digits (digit_val c) cs else Inl ValueError)"

definition py_int :: "string \<Rightarrow> error + int" where
  "py_int s =
     (case strip s of
        [] \<Rightarrow> Inl ValueError
      | c # cs \<Rightarrow>
          if c = CHR ''-'' then (case digits cs of Inl e \<Rightarrow> Inl e | Inr n \<Rightarrow> Inr (- n))
          else if c = CHR ''+'' then digits cs
          else digits (c # cs))"

section \<open>Models (models/vcenter\_config.py)\<close>

text \<open>
  The dataclasses declare their fields \<^verbatim>\<open>str\<close>, and Python does not check it: a field
  holds whatever value the constructor was given, so the fields filled from JSON are
  \<open>json\<close> values. \<open>VCenterConfig\<close> repeats the three fields of \<open>VCenterCredentials\<close>
  and adds two, which the record extension says. The fields \<^verbatim>\<open>name\<close> and
  \<^verbatim>\<open>cluster_id\<close> of \<open>ResourcePool\<close> and \<open>VirtualMachine\<close> carry a prefix, since
  record fields share one name space; an \<^verbatim>\<open>Optional\<close> field left out is \<open>None\<close>.
\<close>

record VCenterCredentials =
  host :: json
  username :: json
  password :: json

record VCenterConfig = VCenterCredentials +
  verify_ssl :: bool
  timeout :: int

record Cluster =
  cluster_id :: json
  name :: json
  resource_pools :: "json list option"

record ResourcePool =
  resource_pool_id :: json
  rp_name :: json
  rp_cluster_id :: "json option"

record VirtualMachine =
  vm_id :: json
  vm_name :: json
  power_state :: json
  vm_cluster_id :: "json option"
  vm_resource_pool_id :: "json option"

section \<open>Configuration manager (config/config\_manager.py)\<close>

text \<open>
  \<open>environ\<close> is \<^verbatim>\<open>os.environ\<close> as the manager reads it (after \<^verbatim>\<open>load_dotenv()\<close> of its
  constructor); \<^verbatim>\<open>os.getenv(k)\<close> is \<open>env k\<close>. \<^verbatim>\<open>json.loads\<close> is a parameter of the
  resolution: \<open>None\<close> is its JSONDecodeError.
\<close>

type_synonym environ = "string \<rightharpoonup> string"

text \<open>\<^verbatim>\<open>os.getenv(k, default)\<close>.\<close>

definition getenv_default :: "environ \<Rightarrow> string \<Rightarrow> string \<Rightarrow> string" where
  "getenv_default env k dflt = (case env k of None \<Rightarrow> dflt | Some v \<Rightarrow> v)"

text \<open>The truth value of an \<^verbatim>\<open>os.getenv(k)\<close>: None and the empty string are false.\<close>

definition truthy_env :: "string option \<Rightarrow> bool" where
  "truthy_env v = (case v of None \<Rightarrow> False | Some s \<Rightarrow> s \<noteq> [])"

definition get_credentials_from_env :: "environ \<Rightarrow> VCenterCredentials option" where
  "get_credentials_from_env env =
     (let host = env ''VCENTER_HOST'';
          username = env ''VCENTER_USERNAME'';
          password = env ''VCENTER_PASSWORD''
      in if list_all truthy_env [host, username, password]
         then Some \<lparr>host = JStr (the host), username = JStr (the username),
                     password = JStr (the password)\<rparr>
         else None)"

definition vcenter_keywords :: "string list" where
  "vcenter_keywords = [''vcenter'', ''vmware'', ''esxi'']"

definition is_vcenter_service :: "json \<Rightarrow> error + bool" where
  "is_vcenter_service service =
     (case py_get service ''name'' (JStr '''') of
        Inl e \<Rightarrow> Inl e
      | Inr n \<Rightarrow>
          (case py_lower n of
             Inl e \<Rightarrow> Inl e
           | Inr service_name \<Rightarrow>
               (case py_get service ''label'' (JStr '''') of
                  Inl e \<Rightarrow> Inl e
                | Inr l \<Rightarrow>
                    (case py_lower l of
                       Inl e \<Rightarrow> Inl e
                     | Inr service_label \<Rightarrow>
                         Inr (list_ex (\<lambda>keyword. str_contains keyword service_name
                                         \<or> str_contains keyword service_label)
                                vcenter_keywords)))))"

text \<open>
  The inner loop of the scan, over the descriptors of one bucket. \<open>Inl\<close> is an exception
  raised in the loop body, \<open>Inr (Some c)\<close> the \<^verbatim>\<open>return\<close> inside it, \<open>Inr None\<close> the loop
  running to its end.
\<close>

fun scan_service_list :: "json list \<Rightarrow> error + VCenterCredentials option" where
  "scan_service_list [] = Inr None"
| "scan_service_list (service # rest) =
     (case is_vcenter_service service of
        Inl e \<Rightarrow> Inl e
      | Inr False \<Rightarrow> scan_service_list rest
      | Inr True \<Rightarrow>
          (case py_get service ''credentials'' (JObj []) of
             Inl e \<Rightarrow> Inl e
           | Inr credentials \<Rightarrow>
               (case py_get credentials ''host'' JNull of
                  Inl e \<Rightarrow> Inl e
                | Inr h \<Rightarrow>
                    (case py_get credentials ''username'' JNull of
                       Inl e \<Rightarrow> Inl e
                     | Inr u \<Rightarrow>
                         (case py_get credentials ''password'' JNull of
                            Inl e \<Rightarrow> Inl e
                          | Inr p \<Rightarrow>
                              if list_all truthy [h, u, p]
                              then Inr (Some \<lparr>host = h, username = u, password = p\<rparr>)
                              else scan_service_list rest)))))"

text \<open>The outer loop, over \<^verbatim>\<open>services.items()\<close>.\<close>

fun scan_services :: "(string \<times> json) list \<Rightarrow> error + VCenterCredentials option" where
  "scan_services [] = Inr None"
| "scan_services ((service_type, service_list) # rest) =
     (case py_iter service_list of
        Inl e \<Rightarrow> Inl e
      | Inr descriptors \<Rightarrow>
          (case scan_service_list descriptors of
             Inl e \<Rightarrow> Inl e
           | Inr (Some c) \<Rightarrow> Inr (Some c)
           | Inr None \<Rightarrow> scan_services rest))"

text \<open>\<^verbatim>\<open>services.items()\<close>: only a dict has the method.\<close>

fun py_items :: "json \<Rightarrow> error + (string \<times> json) list" where
  "py_items (JObj kvs) = Inr kvs"
| "py_items _ = Inl AttributeError"

definition get_credentials_from_service_binding ::
  "(string \<Rightarrow> json option) \<Rightarrow> environ \<Rightarrow> VCenterCredentials option" where
  "get_credentials_from_service_binding json_loads env =
     (let vcap_services = env ''VCAP_SERVICES'' in
      if \<not> truthy_env vcap_services then None
      else
        (case json_loads (the vcap_services) of
           None \<Rightarrow> None
         | Some services \<Rightarrow>
             (case py_items services of
                Inl e \<Rightarrow> None
              | Inr items \<Rightarrow>
                  (case scan_services items of
                     Inl e \<Rightarrow> None
                   | Inr found \<Rightarrow> found))))"

definition get_vcenter_credentials ::
  "(string \<Rightarrow> json option) \<Rightarrow> environ \<Rightarrow> error + VCenterCredentials" where
  "get_vcenter_credentials json_loads env =
     (case get_credentials_from_env env of
        Some credentials \<Rightarrow> Inr credentials
      | None \<Rightarrow>
          (case get_credentials_from_service_binding json_loads env of
             Some credentials \<Rightarrow> Inr credentials
           | None \<Rightarrow> Inl ValueError))"

definition get_vcenter_config ::
  "(string \<Rightarrow> json option) \<Rightarrow> environ \<Rightarrow> error + VCenterConfig" where
  "get_vcenter_config json_loads env =
     (case get_vcenter_credentials json_loads env of
        Inl e \<Rightarrow> Inl e
      | Inr credentials \<Rightarrow>
          (let verify_ssl_str = lower (getenv_default env ''VCENTER_VERIFY_SSL'' ''true'');
               verify_ssl = (verify_ssl_str \<noteq> ''false'');
               timeout_str = getenv_default env ''VCENTER_TIMEOUT'' ''30'';
               timeout = (case py_int timeout_str of Inl e \<Rightarrow> 30 | Inr n \<Rightarrow> n)
           in Inr \<lparr>host = host credentials, username = username credentials,
                    password = password credentials,
                    verify_ssl = verify_ssl, timeout = timeout\<rparr>))"

subsection \<open>What the scan of the service binding is compared with\<close>





text \<open>All descriptors of a document, bucket after bucket, in iteration order.\<close>

definition descriptors :: "(string \<times> json) list \<Rightarrow> json list" where
  "descriptors buckets =
     concat (map (\<lambda>b. case snd b of JList xs \<Rightarrow> xs | _ \<Rightarrow> []) buckets)"



section \<open>API client: construction (services/vcenter\_service.py)\<close>

text \<open>
  \<^verbatim>\<open>VCenterService.__init__\<close> keeps the config and a host of its own,
  \<^verbatim>\<open>config.host.rstrip('/')\<close>: an AttributeError when the host is not a str.
\<close>

record VCenterService =
  config :: VCenterConfig
  service_host :: string

definition VCenterService_init :: "VCenterConfig \<Rightarrow> error + VCenterService" where
  "VCenterService_init cfg =
     (case host cfg of
        JStr h \<Rightarrow> Inr \<lparr>config = cfg, service_host = rstrip_slash h\<rparr>
      | _ \<Rightarrow> Inl AttributeError)"

section \<open>Rendering values as text\<close>

text \<open>
  An f-string renders a field with \<^verbatim>\<open>str(v)\<close>: a str is itself, any other value its
  \<^verbatim>\<open>repr\<close>. The \<^verbatim>\<open>repr\<close> of a str is quoted (in double quotes when it holds a single
  quote and no double quote) with backslash escapes, here for ASCII.
\<close>

definition digit_char :: "nat \<Rightarrow> char" where
  "digit_char n = ''0123456789abcdef'' ! n"

function str_nat :: "nat \<Rightarrow> string" where
  "str_nat n = (if n < 10 then [digit_char n] else str_nat (n div 10) @ [digit_char (n mod 10)])"
  by pat_completeness auto
termination
  by (relation "measure (\<lambda>n. n)") auto

declare str_nat.simps [simp del]

definition str_int :: "int \<Rightarrow> string" where
  "str_int i = (if i < 0 then CHR ''-'' # str_nat (nat (- i)) else str_nat (nat i))"

definition repr_char :: "char \<Rightarrow> char \<Rightarrow> string" where
  "repr_char quote c =
     (let n = (of_char c :: nat) in
      if c = quote \<or> c = CHR 0x5C then [CHR 0x5C, c]
      else if n = 9 then [CHR 0x5C, CHR ''t'']
      else if n = 10 then [CHR 0x5C, CHR ''n'']
      else if n = 13 then [CHR 0x5C, CHR ''r'']
      else if n < 32 \<or> n = 127
      then [CHR 0x5C, CHR ''x'', digit_char (n div 16), digit_char (n mod 16)]
      else [c])"

definition repr_str :: "string \<Rightarrow> string" where
  "repr_str s =
     (let quote = (if CHR 0x27 \<in> set s \<and> CHR 0x22 \<notin> set s then CHR 0x22 else CHR 0x27)
      in [quote] @ concat (map (repr_char quote) s) @ [quote])"

text \<open>\<^verbatim>\<open>sep.join(parts)\<close>.\<close>

fun join :: "string \<Rightarrow> string list \<Rightarrow> string" where
  "join sep [] = []"
| "join sep [x] = x"
| "join sep (x # y # ys) = x @ sep @ join sep (y # ys)"

fun py_repr :: "json \<Rightarrow> string" where
  "py_repr JNull = ''None''"
| "py_repr (JBool b) = (if b then ''True'' else ''False'')"
| "py_repr (JNum i) = str_int i"
| "py_repr (JStr s) = repr_str s"
| "py_repr (JList xs) = ''['' @ join '', '' (map py_repr xs) @ '']''"
| "py_repr (JObj kvs) =
     ''{'' @ join '', '' (map (\<lambda>kv. repr_str (fst kv) @ '': '' @ py_repr (snd kv)) kvs) @ ''}''"

fun py_str :: "json \<Rightarrow> string" where
  "py_str (JStr s) = s"
| "py_str v = py_repr v"

section \<open>API client: requests (services/vcenter\_service.py)\<close>

text \<open>
  The remote side is a parameter: \<open>api n endpoint\<close> is what the \<open>n\<close>-th request of the
  session meets when it asks for \<open>endpoint\<close> (two requests for one endpoint may be
  answered differently). \<open>RequestException\<close> is a network error or a status that
  \<^verbatim>\<open>raise_for_status()\<close> rejects, \<open>InvalidBody\<close> a body \<^verbatim>\<open>response.json()\<close> cannot
  decode. \<open>calls\<close> is the effect of the client: the endpoints requested so far, oldest
  first.
\<close>

datatype http_result = RequestException | InvalidBody | Body json

type_synonym remote = "nat \<Rightarrow> string \<Rightarrow> http_result"

type_synonym calls = "string list"

definition make_request :: "remote \<Rightarrow> string \<Rightarrow> calls \<Rightarrow> (error + json) \<times> calls" where
  "make_request api endpoint calls =
     (case api (length calls) endpoint of
        RequestException \<Rightarrow> Inl RequestFailed
      | InvalidBody \<Rightarrow> Inl RequestFailed
      | Body response \<Rightarrow> Inr response,
      calls @ [endpoint])"

text \<open>
  What the three list operations do with a response inside their \<^verbatim>\<open>try\<close>:
  \<^verbatim>\<open>response.get("value", [])\<close>, then \<^verbatim>\<open>len\<close> of it for the log line, then return it.
\<close>

definition value_of :: "json \<Rightarrow> error + json" where
  "value_of response =
     (case py_get response ''value'' (JList []) of
        Inl e \<Rightarrow> Inl e
      | Inr v \<Rightarrow> (case py_len v of Inl e \<Rightarrow> Inl e | Inr n \<Rightarrow> Inr v))"

text \<open>\<^verbatim>\<open>except Exception: return []\<close>.\<close>

definition or_empty :: "error + json \<Rightarrow> error + json" where
  "or_empty r = (case r of Inl e \<Rightarrow> Inr (JList []) | Inr v \<Rightarrow> Inr v)"

definition VCenterService_get_clusters :: "remote \<Rightarrow> calls \<Rightarrow> (error + json) \<times> calls" where
  "VCenterService_get_clusters api calls =
     (case make_request api ''vcenter/cluster'' calls of
        (Inl e, calls') \<Rightarrow> (or_empty (Inl e), calls')
      | (Inr response, calls') \<Rightarrow> (or_empty (value_of response), calls'))"

text \<open>
  An optional filter argument is \<open>None\<close> when the caller leaves it out. (The arguments
  \<^verbatim>\<open>cluster_id\<close> and \<^verbatim>\<open>resource_pool_id\<close> are primed here, the plain names being
  the record fields.)
\<close>

definition truthy_opt :: "json option \<Rightarrow> bool" where
  "truthy_opt v = (case v of None \<Rightarrow> False | Some j \<Rightarrow> truthy j)"

definition get_resource_pools ::
  "remote \<Rightarrow> json option \<Rightarrow> calls \<Rightarrow> (error + json) \<times> calls" where
  "get_resource_pools api cluster_id' calls =
     (let endpoint = ''vcenter/resource-pool'' @
            (if truthy_opt cluster_id' then ''?clusters='' @ py_str (the cluster_id') else [])
      in case make_request api endpoint calls of
           (Inl e, calls') \<Rightarrow> (or_empty (Inl e), calls')
         | (Inr response, calls') \<Rightarrow> (or_empty (value_of response), calls'))"

definition get_virtual_machines ::
  "remote \<Rightarrow> json option \<Rightarrow> json option \<Rightarrow> calls \<Rightarrow> (error + json) \<times> calls" where
  "get_virtual_machines api cluster_id' resource_pool_id' calls =
     (let params =
            (if truthy_opt cluster_id' then [''clusters='' @ py_str (the cluster_id')] else []) @
            (if truthy_opt resource_pool_id'
             then [''resource_pools='' @ py_str (the resource_pool_id')] else []);
          endpoint = ''vcenter/vm'' @ (if params \<noteq> [] then ''?'' @ join ''&'' params else [])
      in case make_request api endpoint calls of
           (Inl e, calls') \<Rightarrow> (or_empty (Inl e), calls')
         | (Inr response, calls') \<Rightarrow> (or_empty (value_of response), calls'))"

definition test_connection :: "remote \<Rightarrow> calls \<Rightarrow> bool \<times> calls" where
  "test_connection api calls =
     (case VCenterService_get_clusters api calls of
        (Inl e, calls') \<Rightarrow> (False, calls')
      | (Inr clusters, calls') \<Rightarrow> (True, calls'))"

section \<open>Controller (controllers/vcenter\_controller.py)\<close>

text \<open>
  Every operation takes the remote side and the calls made so far and returns its result
  with the calls made by then. A \<^verbatim>\<open>for\<close> loop over a fetched value iterates \<open>py_iter\<close> of
  it; the loop bodies are the recursive functions below, an exception in a body being \<open>Inl\<close>.
\<close>

fun clusters_of :: "json list \<Rightarrow> error + Cluster list" where
  "clusters_of [] = Inr []"
| "clusters_of (raw_cluster # rest) =
     (case py_get raw_cluster ''cluster'' (JStr ''Unknown'') of
        Inl e \<Rightarrow> Inl e
      | Inr i \<Rightarrow>
          (case py_get raw_cluster ''name'' (JStr ''Unknown'') of
             Inl e \<Rightarrow> Inl e
           | Inr n \<Rightarrow>
               (case clusters_of rest of
                  Inl e \<Rightarrow> Inl e
                | Inr clusters \<Rightarrow>
                    Inr (\<lparr>cluster_id = i, name = n, resource_pools = None\<rparr> # clusters))))"

definition get_clusters :: "remote \<Rightarrow> calls \<Rightarrow> Cluster list \<times> calls" where
  "get_clusters api calls =
     (case VCenterService_get_clusters api calls of
        (Inl e, calls') \<Rightarrow> ([], calls')
      | (Inr raw_clusters, calls') \<Rightarrow>
          (case py_iter raw_clusters of
             Inl e \<Rightarrow> ([], calls')
           | Inr raws \<Rightarrow>
               (case clusters_of raws of
                  Inl e \<Rightarrow> ([], calls')
                | Inr clusters \<Rightarrow> (clusters, calls'))))"

text \<open>
  The scan of \<^verbatim>\<open>get_cluster_by_name\<close>. \<^verbatim>\<open>cluster.name == cluster_name\<close> compares a value
  with a str: equal exactly when the value is that str.
\<close>

fun find_cluster :: "Cluster list \<Rightarrow> string \<Rightarrow> Cluster option" where
  "find_cluster [] cluster_name = None"
| "find_cluster (cluster # rest) cluster_name =
     (if name cluster = JStr cluster_name then Some cluster
      else find_cluster rest cluster_name)"

definition get_cluster_by_name :: "remote \<Rightarrow> string \<Rightarrow> calls \<Rightarrow> Cluster option \<times> calls" where
  "get_cluster_by_name api cluster_name calls =
     (case get_clusters api calls of
        (clusters, calls') \<Rightarrow> (find_cluster clusters cluster_name, calls'))"

fun resource_pools_of :: "json \<Rightarrow> json list \<Rightarrow> error + ResourcePool list" where
  "resource_pools_of cid [] = Inr []"
| "resource_pools_of cid (raw_rp # rest) =
     (case py_get raw_rp ''resource_pool'' (JStr ''Unknown'') of
        Inl e \<Rightarrow> Inl e
      | Inr i \<Rightarrow>
          (case py_get raw_rp ''name'' (JStr ''Unknown'') of
             Inl e \<Rightarrow> Inl e
           | Inr n \<Rightarrow>
               (case resource_pools_of cid rest of
                  Inl e \<Rightarrow> Inl e
                | Inr pools \<Rightarrow>
                    Inr (\<lparr>resource_pool_id = i, rp_name = n, rp_cluster_id = Some cid\<rparr>
                         # pools))))"

definition get_resource_pools_in_cluster ::
  "remote \<Rightarrow> string \<Rightarrow> calls \<Rightarrow> ResourcePool list \<times> calls" where
  "get_resource_pools_in_cluster api cluster_name calls =
     (case get_cluster_by_name api cluster_name calls of
        (None, calls') \<Rightarrow> ([], calls')
      | (Some cluster, calls') \<Rightarrow>
          (case get_resource_pools api (Some (cluster_id cluster)) calls' of
             (Inl e, calls'') \<Rightarrow> ([], calls'')
           | (Inr raw_resource_pools, calls'') \<Rightarrow>
               (case py_iter raw_resource_pools of
                  Inl e \<Rightarrow> ([], calls'')
                | Inr raws \<Rightarrow>
                    (case resource_pools_of (cluster_id cluster) raws of
                       Inl e \<Rightarrow> ([], calls'')
                     | Inr pools \<Rightarrow> (pools, calls'')))))"

text \<open>
  The scan of \<^verbatim>\<open>get_resource_pool_by_name\<close>, over the raw records.
  \<^verbatim>\<open>raw_rp.get('name')\<close> is None for a record without the key.
\<close>

fun find_resource_pool :: "json list \<Rightarrow> string \<Rightarrow> error + ResourcePool option" where
  "find_resource_pool [] resource_pool_name = Inr None"
| "find_resource_pool (raw_rp # rest) resource_pool_name =
     (case py_get raw_rp ''name'' JNull of
        Inl e \<Rightarrow> Inl e
      | Inr n \<Rightarrow>
          if n = JStr resource_pool_name
          then (case py_get raw_rp ''resource_pool'' (JStr ''Unknown'') of
                  Inl e \<Rightarrow> Inl e
                | Inr i \<Rightarrow>
                    (case py_get raw_rp ''name'' (JStr ''Unknown'') of
                       Inl e \<Rightarrow> Inl e
                     | Inr n' \<Rightarrow>
                         Inr (Some \<lparr>resource_pool_id = i, rp_name = n',
                                     rp_cluster_id = None\<rparr>)))
          else find_resource_pool rest resource_pool_name)"

text \<open>This operation has no \<^verbatim>\<open>try\<close>: an exception of the scan reaches the caller.\<close>

definition get_resource_pool_by_name ::
  "remote \<Rightarrow> string \<Rightarrow> calls \<Rightarrow> (error + ResourcePool option) \<times> calls" where
  "get_resource_pool_by_name api resource_pool_name calls =
     (case get_resource_pools api None calls of
        (Inl e, calls') \<Rightarrow> (Inl e, calls')
      | (Inr raw_resource_pools, calls') \<Rightarrow>
          (case py_iter raw_resource_pools of
             Inl e \<Rightarrow> (Inl e, calls')
           | Inr raws \<Rightarrow> (find_resource_pool raws resource_pool_name, calls')))"

fun vms_of :: "json option \<Rightarrow> json option \<Rightarrow> json list \<Rightarrow> error + VirtualMachine list" where
  "vms_of cid rpid [] = Inr []"
| "vms_of cid rpid (raw_vm # rest) =
     (case py_get raw_vm ''vm'' (JStr ''Unknown'') of
        Inl e \<Rightarrow> Inl e
      | Inr i \<Rightarrow>
          (case py_get raw_vm ''name'' (JStr ''Unknown'') of
             Inl e \<Rightarrow> Inl e
           | Inr n \<Rightarrow>
               (case py_get raw_vm ''power_state'' (JStr ''Unknown'') of
                  Inl e \<Rightarrow> Inl e
                | Inr s \<Rightarrow>
                    (case vms_of cid rpid rest of
                       Inl e \<Rightarrow> Inl e
                     | Inr vms \<Rightarrow>
                         Inr (\<lparr>vm_id = i, vm_name = n, power_state = s, vm_cluster_id = cid,
                               vm_resource_pool_id = rpid\<rparr> # vms)))))"

definition get_vms_in_cluster ::
  "remote \<Rightarrow> string \<Rightarrow> calls \<Rightarrow> VirtualMachine list \<times> calls" where
  "get_vms_in_cluster api cluster_name calls =
     (case get_cluster_by_name api cluster_name calls of
        (None, calls') \<Rightarrow> ([], calls')
      | (Some cluster, calls') \<Rightarrow>
          (case get_virtual_machines api (Some (cluster_id cluster)) None calls' of
             (Inl e, calls'') \<Rightarrow> ([], calls'')
           | (Inr raw_vms, calls'') \<Rightarrow>
               (case py_iter raw_vms of
                  Inl e \<Rightarrow> ([], calls'')
                | Inr raws \<Rightarrow>
                    (case vms_of (Some (cluster_id cluster)) None raws of
                       Inl e \<Rightarrow> ([], calls'')
                     | Inr vms \<Rightarrow> (vms, calls'')))))"

definition get_vms_in_resource_pool ::
  "remote \<Rightarrow> string \<Rightarrow> calls \<Rightarrow> VirtualMachine list \<times> calls" where
  "get_vms_in_resource_pool api resource_pool_name calls =
     (case get_resource_pool_by_name api resource_pool_name calls of
        (Inl e, calls') \<Rightarrow> ([], calls')
      | (Inr None, calls') \<Rightarrow> ([], calls')
      | (Inr (Some resource_pool), calls') \<Rightarrow>
          (case get_virtual_machines api None (Some (resource_pool_id resource_pool)) calls' of
             (Inl e, calls'') \<Rightarrow> ([], calls'')
           | (Inr raw_vms, calls'') \<Rightarrow>
               (case py_iter raw_vms of
                  Inl e \<Rightarrow> ([], calls'')
                | Inr raws \<Rightarrow>
                    (case vms_of None (Some (resource_pool_id resource_pool)) raws of
                       Inl e \<Rightarrow> ([], calls'')
                     | Inr vms \<Rightarrow> (vms, calls'')))))"

text \<open>
  The status dict, as the association list of its keys in the order the source writes
  them. \<open>h\<close> is \<^verbatim>\<open>self.config.host\<close>. The text \<^verbatim>\<open>str(e)\<close> of an exception is not
  tracked: the \<open>'Error'\<close> dict carries the exception's class name in its place.
\<close>

fun error_text :: "error \<Rightarrow> string" where
  "error_text ValueError = ''ValueError''"
| "error_text AttributeError = ''AttributeError''"
| "error_text TypeError = ''TypeError''"
| "error_text RequestFailed = ''RequestFailed''"

definition status_error :: "json \<Rightarrow> error \<Rightarrow> (string \<times> json) list" where
  "status_error h e =
     [(''connection_status'', JStr ''Error''), (''host'', h), (''error'', JStr (error_text e))]"

definition get_vcenter_status :: "remote \<Rightarrow> json \<Rightarrow> calls \<Rightarrow> (string \<times> json) list \<times> calls" where
  "get_vcenter_status api h calls =
     (case test_connection api calls of
        (False, calls1) \<Rightarrow>
          ([(''connection_status'', JStr ''Failed''), (''host'', h),
            (''error'', JStr ''Cannot connect to vCenter'')], calls1)
      | (True, calls1) \<Rightarrow>
          (case get_clusters api calls1 of
             (clusters, calls2) \<Rightarrow>
               (case get_resource_pools api None calls2 of
                  (Inl e, calls3) \<Rightarrow> (status_error h e, calls3)
                | (Inr raw_resource_pools, calls3) \<Rightarrow>
                    (case get_virtual_machines api None None calls3 of
                       (Inl e, calls4) \<Rightarrow> (status_error h e, calls4)
                     | (Inr raw_vms, calls4) \<Rightarrow>
                         (case py_len raw_resource_pools of
                            Inl e \<Rightarrow> (status_error h e, calls4)
                          | Inr n_pools \<Rightarrow>
                              (case py_len raw_vms of
                                 Inl e \<Rightarrow> (status_error h e, calls4)
                               | Inr n_vms \<Rightarrow>
                                   ([(''host'', h),
                                     (''clusters_count'', JNum (int (length clusters))),
                                     (''resource_pools_count'', JNum (int n_pools)),
                                     (''vms_count'', JNum (int n_vms)),
                                     (''connection_status'', JStr ''Connected'')],
                                    calls4)))))))"

section \<open>View (views/mcp\_tools.py)\<close>

text \<open>The loop \<^verbatim>\<open>result += f"- {cluster.name} (ID: {cluster.cluster_id})\n"\<close>.\<close>

fun cluster_lines :: "string \<Rightarrow> Cluster list \<Rightarrow> string" where
  "cluster_lines result [] = result"
| "cluster_lines result (cluster # rest) =
     cluster_lines
       (result @ ''- '' @ py_str (name cluster) @ '' (ID: '' @ py_str (cluster_id cluster)
          @ [CHR '')'', CHR 0x0A])
       rest"

text \<open>The method \<^verbatim>\<open>MCPToolsView.format_cluster_list\<close>.\<close>

definition format_cluster_list :: "Cluster list \<Rightarrow> string" where
  "format_cluster_list clusters =
     (if clusters = [] then ''No clusters found''
      else cluster_lines (''Clusters in vCenter:'' @ [CHR 0x0A]) clusters)"

text \<open>
  The tool \<^verbatim>\<open>list_clusters\<close>, which formats the controller's list itself. Nothing in its
  \<^verbatim>\<open>try\<close> raises in the model, so its \<^verbatim>\<open>except\<close> has no branch here.
\<close>

definition list_clusters :: "remote \<Rightarrow> calls \<Rightarrow> string \<times> calls" where
  "list_clusters api calls =
     (case get_clusters api calls of
        (clusters, calls') \<Rightarrow>
          (if clusters = [] then ''No clusters found in vCenter''
           else cluster_lines (''Clusters in vCenter:'' @ [CHR 0x0A]) clusters, calls'))"

section \<open>Facts about the configuration manager\<close>

lemma get_credentials_from_env_set:
  assumes "env ''VCENTER_HOST'' = Some h" and "h \<noteq> []"
    and "env ''VCENTER_USERNAME'' = Some u" and "u \<noteq> []"
    and "env ''VCENTER_PASSWORD'' = Some p" and "p \<noteq> []"
  shows "get_credentials_from_env env = Some \<lparr>host = JStr h, username = JStr u, password = JStr p\<rparr>"
  using assms by (simp add: get_credentials_from_env_def truthy_env_def)

lemma get_vcenter_config_fields:
  assumes "get_vcenter_credentials json_loads env = Inr c"
  shows "get_vcenter_config json_loads env =
           Inr \<lparr>host = host c, username = username c, password = password c,
                 verify_ssl = (lower (getenv_default env ''VCENTER_VERIFY_SSL'' ''true'') \<noteq> ''false''),
                 timeout = (case py_int (getenv_default env ''VCENTER_TIMEOUT'' ''30'') of
                              Inl e \<Rightarrow> 30 | Inr n \<Rightarrow> n)\<rparr>"
  using assms by (simp add: get_vcenter_config_def)

lemma get_vcenter_config_Inr:
  assumes "get_vcenter_config json_loads env = Inr cfg"
  obtains c where "get_vcenter_credentials json_loads env = Inr c"
  using assms by (auto simp: get_vcenter_config_def split: sum.splits)

lemma py_int_30: "py_int ''30'' = Inr 30"
  by (simp add: py_int_def strip_def is_space_def digits_def is_digit_def digit_val_def)

lemma lower_true: "lower ''true'' = ''true''"
  by (simp add: lower_def lower_char_def)

lemma rstrip_slash_no_trailing: "rstrip_slash s \<noteq> t @ ''/''"
proof
  assume a: "rstrip_slash s = t @ ''/''"
  have "rev (rstrip_slash s) = dropWhile (\<lambda>c. c = CHR ''/'') (rev s)"
    by (simp add: rstrip_slash_def)
  with a have "dropWhile (\<lambda>c. c = CHR ''/'') (rev s) = CHR ''/'' # rev t" by simp
  then show False
    using hd_dropWhile[of "\<lambda>c. c = CHR ''/''" "rev s"] by auto
qed

lemma takeWhile_eq_replicate:
  "takeWhile (\<lambda>c. c = a) xs = replicate (length (takeWhile (\<lambda>c. c = a) xs)) a"
  by (induction xs) auto

lemma rstrip_slash_prefix: "\<exists>k. s = rstrip_slash s @ replicate k (CHR ''/'')"
proof -
  let ?P = "\<lambda>c. c = CHR ''/''"
  let ?k = "length (takeWhile ?P (rev s))"
  have "rev s = takeWhile ?P (rev s) @ dropWhile ?P (rev s)"
    by simp
  then have "s = rev (dropWhile ?P (rev s)) @ rev (takeWhile ?P (rev s))"
    by (metis rev_append rev_rev_ident)
  also have "rev (takeWhile ?P (rev s)) = replicate ?k (CHR ''/'')"
    using takeWhile_eq_replicate[of "CHR ''/''" "rev s"] by (metis rev_replicate)
  finally have "s = rstrip_slash s @ replicate ?k (CHR ''/'')"
    by (simp add: rstrip_slash_def)
  then show ?thesis ..
qed


lemma example_config_host:
  "get_vcenter_config (\<lambda>s. None)
     [''VCENTER_HOST'' \<mapsto> ''https://vc/'', ''VCENTER_USERNAME'' \<mapsto> ''admin'',
      ''VCENTER_PASSWORD'' \<mapsto> ''secret''] =
   Inr \<lparr>host = JStr ''https://vc/'', username = JStr ''admin'', password = JStr ''secret'',
         verify_ssl = True, timeout = 30\<rparr>"
  by (simp add: get_vcenter_config_def get_vcenter_credentials_def get_credentials_from_env_def
      truthy_env_def getenv_default_def lower_true py_int_30)

lemma example_config_verify:
  "get_vcenter_config (\<lambda>s. None)
     [''VCENTER_HOST'' \<mapsto> ''https://vc'', ''VCENTER_USERNAME'' \<mapsto> ''admin'',
      ''VCENTER_PASSWORD'' \<mapsto> ''secret'', ''VCENTER_VERIFY_SSL'' \<mapsto> ''False''] =
   Inr \<lparr>host = JStr ''https://vc'', username = JStr ''admin'', password = JStr ''secret'',
         verify_ssl = False, timeout = 30\<rparr>"
  by (simp add: get_vcenter_config_def get_vcenter_credentials_def get_credentials_from_env_def
      truthy_env_def getenv_default_def lower_def lower_char_def py_int_30)














section \<open>Claims about the configuration manager\<close>

text \<open>
  C3 (as amended). Whenever the resolution succeeds, the host of the resulting
  \<open>VCenterConfig\<close> is the host of the resolved credentials, unchanged: no slash is
  stripped from it. The stripping happens in the API client built from the config
  (\<^verbatim>\<open>VCenterService.__init__\<close>), whose own host is the config's host without its trailing
  slashes, while the config it keeps is the one it was given.
\<close>

theorem config_host_verbatim:
  assumes "get_vcenter_config json_loads env = Inr cfg"
  shows "\<exists>c. get_vcenter_credentials json_loads env = Inr c \<and> host cfg = host c \<and>
           (\<forall>h. host cfg = JStr h \<longrightarrow>
              (\<exists>svc k. VCenterService_init cfg = Inr svc \<and> config svc = cfg \<and>
                 h = service_host svc @ replicate k (CHR ''/'') \<and>
                 (\<forall>t. service_host svc \<noteq> t @ ''/'')))"
proof -
  from assms obtain c where c: "get_vcenter_credentials json_loads env = Inr c"
    by (rule get_vcenter_config_Inr)
  from get_vcenter_config_fields[OF c] assms have h: "host cfg = host c" by auto
  have "\<exists>svc k. VCenterService_init cfg = Inr svc \<and> config svc = cfg \<and>
                 h = service_host svc @ replicate k (CHR ''/'') \<and>
                 (\<forall>t. service_host svc \<noteq> t @ ''/'')" if "host cfg = JStr h" for h
    using that rstrip_slash_prefix[of h] rstrip_slash_no_trailing[of h]
    by (auto simp: VCenterService_init_def)
  with c h show ?thesis by blast
qed

text \<open>C3, witness: the resolution of a host with a trailing slash.\<close>

theorem config_host_verbatim_witness:
  "\<exists>c. get_vcenter_credentials (\<lambda>s. None)
          [''VCENTER_HOST'' \<mapsto> ''https://vc/'', ''VCENTER_USERNAME'' \<mapsto> ''admin'',
           ''VCENTER_PASSWORD'' \<mapsto> ''secret''] = Inr c \<and>
       JStr ''https://vc/'' = host c \<and>
       (\<exists>svc k. VCenterService_init
                  \<lparr>host = JStr ''https://vc/'', username = JStr ''admin'',
                    password = JStr ''secret'', verify_ssl = True, timeout = 30\<rparr> = Inr svc \<and>
                ''https://vc/'' = service_host svc @ replicate k (CHR ''/''))"
  using config_host_verbatim [OF example_config_host] by auto

text \<open>
  C3 as stated fails: with VCENTER\_HOST set to \<open>https://vc/\<close> the resolved config holds
  \<open>https://vc/\<close>, slash included.
\<close>

theorem config_host_keeps_trailing_slash:
  "get_vcenter_config (\<lambda>s. None)
     [''VCENTER_HOST'' \<mapsto> ''https://vc/'', ''VCENTER_USERNAME'' \<mapsto> ''admin'',
      ''VCENTER_PASSWORD'' \<mapsto> ''secret''] =
   Inr \<lparr>host = JStr ''https://vc/'', username = JStr ''admin'', password = JStr ''secret'',
         verify_ssl = True, timeout = 30\<rparr> \<and>
   JStr ''https://vc/'' \<noteq> JStr ''https://vc''"
  using example_config_host by simp

text \<open>
  C4 (as amended). The verify flag is false exactly when VCENTER\_VERIFY\_SSL is set to a
  value whose lower-cased form is \<open>false\<close> (so \<open>false\<close>, \<open>False\<close>, \<open>FALSE\<close>, ...); every
  other value, and the variable being unset, yields true.
\<close>

theorem verify_ssl_lowercased:
  assumes "get_vcenter_config json_loads env = Inr cfg"
  shows "verify_ssl cfg =
           (case env ''VCENTER_VERIFY_SSL'' of None \<Rightarrow> True | Some v \<Rightarrow> lower v \<noteq> ''false'')"
proof -
  from assms obtain c where c: "get_vcenter_credentials json_loads env = Inr c"
    by (rule get_vcenter_config_Inr)
  from get_vcenter_config_fields[OF c] assms
  have "verify_ssl cfg = (lower (getenv_default env ''VCENTER_VERIFY_SSL'' ''true'') \<noteq> ''false'')"
    by auto
  then show ?thesis
    by (simp add: getenv_default_def lower_true split: option.splits)
qed

text \<open>C4, witness: the value \<open>False\<close>.\<close>

theorem verify_ssl_lowercased_witness:
  "verify_ssl \<lparr>host = JStr ''https://vc'', username = JStr ''admin'', password = JStr ''secret'',
               verify_ssl = False, timeout = 30\<rparr> = (lower ''False'' \<noteq> ''false'')"
  using verify_ssl_lowercased [OF example_config_verify] by simp

text \<open>
  C4 as stated fails: \<open>False\<close> is a value other than \<open>false\<close>, and it yields the flag
  false.
\<close>

theorem verify_ssl_False_disables:
  "get_vcenter_config (\<lambda>s. None)
     [''VCENTER_HOST'' \<mapsto> ''https://vc'', ''VCENTER_USERNAME'' \<mapsto> ''admin'',
      ''VCENTER_PASSWORD'' \<mapsto> ''secret'', ''VCENTER_VERIFY_SSL'' \<mapsto> ''False''] =
   Inr \<lparr>host = JStr ''https://vc'', username = JStr ''admin'', password = JStr ''secret'',
         verify_ssl = False, timeout = 30\<rparr> \<and>
   ''False'' \<noteq> ''false''"
  using example_config_verify by simp




text \<open>
  C8. When VCENTER\_HOST, VCENTER\_USERNAME and VCENTER\_PASSWORD are all set and non-empty,
  the credentials are exactly those three values, whatever VCAP\_SERVICES holds and whatever
  \<^verbatim>\<open>json.loads\<close> makes of it; and when VCENTER\_VERIFY\_SSL and VCENTER\_TIMEOUT are unset
  the config is those three values with \<open>verify_ssl = True\<close> and \<open>timeout = 30\<close>.
\<close>

theorem env_credentials_priority:
  assumes "env ''VCENTER_HOST'' = Some h" and "h \<noteq> []"
    and "env ''VCENTER_USERNAME'' = Some u" and "u \<noteq> []"
    and "env ''VCENTER_PASSWORD'' = Some p" and "p \<noteq> []"
  shows "get_vcenter_credentials json_loads env =
           Inr \<lparr>host = JStr h, username = JStr u, password = JStr p\<rparr> \<and>
         (env ''VCENTER_VERIFY_SSL'' = None \<and> env ''VCENTER_TIMEOUT'' = None \<longrightarrow>
          get_vcenter_config json_loads env =
            Inr \<lparr>host = JStr h, username = JStr u, password = JStr p,
                  verify_ssl = True, timeout = 30\<rparr>)"
proof -
  have c: "get_vcenter_credentials json_loads env =
           Inr \<lparr>host = JStr h, username = JStr u, password = JStr p\<rparr>"
    by (simp add: get_vcenter_credentials_def get_credentials_from_env_set[OF assms])
  show ?thesis
    using get_vcenter_config_fields[OF c] c
    by (simp add: getenv_default_def py_int_30 lower_true)
qed

text \<open>
  C8, witness: a service binding with complete vCenter credentials of its own is present
  and ignored.
\<close>

theorem env_credentials_priority_witness:
  "get_vcenter_config
     (\<lambda>s. Some (JObj [(''user-provided'',
        JList [JObj [(''name'', JStr ''vcenter''),
                     (''credentials'', JObj [(''host'', JStr ''https://other''),
                                              (''username'', JStr ''bound''),
                                              (''password'', JStr ''pw'')])]])]))
     [''VCENTER_HOST'' \<mapsto> ''https://vc'', ''VCENTER_USERNAME'' \<mapsto> ''admin'',
      ''VCENTER_PASSWORD'' \<mapsto> ''secret'', ''VCAP_SERVICES'' \<mapsto> ''{...}''] =
   Inr \<lparr>host = JStr ''https://vc'', username = JStr ''admin'', password = JStr ''secret'',
         verify_ssl = True, timeout = 30\<rparr>"
  using env_credentials_priority [of
      "[''VCENTER_HOST'' \<mapsto> ''https://vc'', ''VCENTER_USERNAME'' \<mapsto> ''admin'',
        ''VCENTER_PASSWORD'' \<mapsto> ''secret'', ''VCAP_SERVICES'' \<mapsto> ''{...}'']"
      "''https://vc''" "''admin''" "''secret''"]
  by simp




section \<open>Facts about the API client and the controller\<close>

lemma or_empty_Inr: "\<exists>v. or_empty r = Inr v"
  by (cases r) (simp_all add: or_empty_def)

lemma value_of_sized: "value_of response = Inr v \<Longrightarrow> \<exists>n. py_len v = Inr n"
  by (auto simp: value_of_def split: sum.splits)

lemma or_empty_value_of_sized: "or_empty (value_of response) = Inr v \<Longrightarrow> \<exists>n. py_len v = Inr n"
  by (cases "value_of response") (auto simp: or_empty_def dest: value_of_sized)


lemma VCenterService_get_clusters_returns:
  "\<exists>v n. VCenterService_get_clusters api calls = (Inr v, calls @ [''vcenter/cluster'']) \<and>
          py_len v = Inr n"
proof (cases "api (length calls) ''vcenter/cluster''")
  case (Body response)
  obtain v where v: "or_empty (value_of response) = Inr v"
    using or_empty_Inr by blast
  with Body show ?thesis
    using or_empty_value_of_sized[OF v]
    by (simp add: VCenterService_get_clusters_def make_request_def)
qed (simp_all add: VCenterService_get_clusters_def make_request_def or_empty_def)

lemma get_resource_pools_unfiltered:
  "\<exists>v n. get_resource_pools api None calls = (Inr v, calls @ [''vcenter/resource-pool'']) \<and>
          py_len v = Inr n"
proof (cases "api (length calls) ''vcenter/resource-pool''")
  case (Body response)
  obtain v where v: "or_empty (value_of response) = Inr v"
    using or_empty_Inr by blast
  with Body show ?thesis
    using or_empty_value_of_sized[OF v]
    by (simp add: get_resource_pools_def make_request_def truthy_opt_def)
qed (simp_all add: get_resource_pools_def make_request_def or_empty_def truthy_opt_def)

lemma get_virtual_machines_unfiltered:
  "\<exists>v n. get_virtual_machines api None None calls = (Inr v, calls @ [''vcenter/vm'']) \<and>
          py_len v = Inr n"
proof (cases "api (length calls) ''vcenter/vm''")
  case (Body response)
  obtain v where v: "or_empty (value_of response) = Inr v"
    using or_empty_Inr by blast
  with Body show ?thesis
    using or_empty_value_of_sized[OF v]
    by (simp add: get_virtual_machines_def make_request_def truthy_opt_def)
qed (simp_all add: get_virtual_machines_def make_request_def or_empty_def truthy_opt_def)

lemma test_connection_always_True:
  "test_connection api calls = (True, calls @ [''vcenter/cluster''])"
  using VCenterService_get_clusters_returns[of api calls]
  by (auto simp: test_connection_def)

lemma get_clusters_calls: "snd (get_clusters api calls) = calls @ [''vcenter/cluster'']"
  using VCenterService_get_clusters_returns[of api calls]
  by (auto simp: get_clusters_def split: sum.splits)

lemma get_vcenter_status_always_Connected:
  "\<exists>nc np nv. get_vcenter_status api h calls =
     ([(''host'', h), (''clusters_count'', JNum nc), (''resource_pools_count'', JNum np),
       (''vms_count'', JNum nv), (''connection_status'', JStr ''Connected'')],
      calls @ [''vcenter/cluster'', ''vcenter/cluster'', ''vcenter/resource-pool'', ''vcenter/vm''])"
proof -
  let ?c1 = "calls @ [''vcenter/cluster'']"
  obtain cs c2 where g: "get_clusters api ?c1 = (cs, c2)" by (cases "get_clusters api ?c1")
  with get_clusters_calls[of api ?c1] have c2: "c2 = ?c1 @ [''vcenter/cluster'']" by simp
  obtain rp np where rp: "get_resource_pools api None c2 = (Inr rp, c2 @ [''vcenter/resource-pool''])"
    and np: "py_len rp = Inr np"
    using get_resource_pools_unfiltered[of api c2] by blast
  obtain vm nv where vm: "get_virtual_machines api None None (c2 @ [''vcenter/resource-pool'']) =
       (Inr vm, (c2 @ [''vcenter/resource-pool'']) @ [''vcenter/vm''])"
    and nv: "py_len vm = Inr nv"
    using get_virtual_machines_unfiltered[of api "c2 @ [''vcenter/resource-pool'']"] by blast
  have "get_vcenter_status api h calls =
     ([(''host'', h), (''clusters_count'', JNum (int (length cs))),
       (''resource_pools_count'', JNum (int np)), (''vms_count'', JNum (int nv)),
       (''connection_status'', JStr ''Connected'')],
      (c2 @ [''vcenter/resource-pool'']) @ [''vcenter/vm''])"
    by (simp add: get_vcenter_status_def test_connection_always_True g rp vm np nv)
  then show ?thesis
    unfolding c2 by simp
qed


lemma find_cluster_find:
  "find_cluster clusters q = List.find (\<lambda>c. name c = JStr q) clusters"
  by (induction clusters) auto

lemma example_clusters:
  "get_clusters
     (\<lambda>n endpoint. Body (JObj [(''value'',
        JList [JObj [(''cluster'', JStr ''c1''), (''name'', JStr ''Prod'')]])])) [] =
   ([\<lparr>cluster_id = JStr ''c1'', name = JStr ''Prod'', resource_pools = None\<rparr>],
    [''vcenter/cluster''])"
  by (simp add: get_clusters_def VCenterService_get_clusters_def make_request_def or_empty_def
      value_of_def)

lemma find_resource_pool_Some:
  "find_resource_pool raws q = Inr (Some p) \<Longrightarrow>
   \<exists>kvs. JObj kvs \<in> set raws \<and> map_of kvs ''name'' = Some (JStr q) \<and>
         p = \<lparr>resource_pool_id =
                 (case map_of kvs ''resource_pool'' of None \<Rightarrow> JStr ''Unknown'' | Some i \<Rightarrow> i),
               rp_name = JStr q, rp_cluster_id = None\<rparr>"
proof (induction raws)
  case Nil
  then show ?case by simp
next
  case (Cons raw raws)
  show ?case
  proof (cases raw)
    case (JObj kvs)
    show ?thesis
    proof (cases "map_of kvs ''name'' = Some (JStr q)")
      case True
      with Cons.prems JObj show ?thesis by (auto split: option.splits)
    next
      case False
      with Cons.prems JObj have "find_resource_pool raws q = Inr (Some p)"
        by (auto split: option.splits if_splits)
      from Cons.IH[OF this] show ?thesis by auto
    qed
  qed (use Cons.prems in simp_all)
qed

lemma find_resource_pool_absent:
  "\<forall>raw \<in> set raws. py_get raw ''name'' JNull \<noteq> Inr (JStr q) \<Longrightarrow>
   find_resource_pool raws q \<noteq> Inr (Some p)"
proof
  assume a: "\<forall>raw \<in> set raws. py_get raw ''name'' JNull \<noteq> Inr (JStr q)"
    and "find_resource_pool raws q = Inr (Some p)"
  then obtain kvs where "JObj kvs \<in> set raws" "map_of kvs ''name'' = Some (JStr q)"
    using find_resource_pool_Some by blast
  with a show False by force
qed


lemma example_pools:
  "get_resource_pools
     (\<lambda>n endpoint. Body (JObj [(''value'',
        JList [JObj [(''resource_pool'', JStr ''resgroup-1''), (''name'', JStr ''pool-a'')]])]))
     None [] =
   (Inr (JList [JObj [(''resource_pool'', JStr ''resgroup-1''), (''name'', JStr ''pool-a'')]]),
    [''vcenter/resource-pool''])"
  by (simp add: get_resource_pools_def make_request_def or_empty_def value_of_def truthy_opt_def)

section \<open>Claims about the API client, the controller and the view\<close>

text \<open>
  C1. The claim does not hold of the code. \<^verbatim>\<open>VCenterService.get_clusters\<close> catches every
  exception itself, so \<^verbatim>\<open>test_connection\<close> never sees one and answers True on any remote
  failure. At a remote side that fails every request, the controller's cluster list is
  empty, as claimed, but the status is the \<open>'Connected'\<close> dict with three zero counts,
  not the \<open>'Failed'\<close> one.
\<close>

theorem status_after_remote_failure:
  "get_clusters (\<lambda>n endpoint. RequestException) [] = ([], [''vcenter/cluster'']) \<and>
   test_connection (\<lambda>n endpoint. RequestException) [] = (True, [''vcenter/cluster'']) \<and>
   get_vcenter_status (\<lambda>n endpoint. RequestException) (JStr ''https://vc'') [] =
     ([(''host'', JStr ''https://vc''), (''clusters_count'', JNum 0),
       (''resource_pools_count'', JNum 0), (''vms_count'', JNum 0),
       (''connection_status'', JStr ''Connected'')],
      [''vcenter/cluster'', ''vcenter/cluster'', ''vcenter/resource-pool'', ''vcenter/vm''])"
  by (simp add: get_vcenter_status_def test_connection_def get_clusters_def
      VCenterService_get_clusters_def get_resource_pools_def get_virtual_machines_def
      make_request_def or_empty_def truthy_opt_def)

text \<open>
  C2. The claim does not hold of \<^verbatim>\<open>format_cluster_list\<close>: on the empty list it returns
  \<open>No clusters found\<close>, without \<open>in vCenter\<close>, while the tool \<^verbatim>\<open>list_clusters\<close> returns
  the claimed sentence. On the single cluster both return the claimed text.
\<close>

theorem format_cluster_list_empty_text:
  "format_cluster_list [] = ''No clusters found'' \<and>
   format_cluster_list [] \<noteq> ''No clusters found in vCenter'' \<and>
   fst (list_clusters (\<lambda>n endpoint. Body (JObj [(''value'', JList [])])) []) =
     ''No clusters found in vCenter'' \<and>
   format_cluster_list [\<lparr>cluster_id = JStr ''c1'', name = JStr ''Prod'', resource_pools = None\<rparr>] =
     ''Clusters in vCenter:'' @ [CHR 0x0A] @ ''- Prod (ID: c1)'' @ [CHR 0x0A]"
  by (simp add: format_cluster_list_def list_clusters_def get_clusters_def
      VCenterService_get_clusters_def make_request_def or_empty_def value_of_def)

text \<open>
  C6. When no raw record of the unfiltered resource-pool listing has the queried name,
  \<^verbatim>\<open>get_vms_in_resource_pool\<close> returns the empty list, and the one request it has made by
  then is the listing of the resource pools that the name resolution makes: no request for
  virtual machines is issued. (The listing the API client returns can always be iterated,
  by \<open>listing_exists\<close>.)
\<close>

theorem get_vms_in_resource_pool_absent_pool:
  assumes "fst (get_resource_pools api None calls) = Inr listing"
    and "py_iter listing = Inr raws"
    and "\<forall>raw \<in> set raws. py_get raw ''name'' JNull \<noteq> Inr (JStr q)"
  shows "get_vms_in_resource_pool api q calls = ([], calls @ [''vcenter/resource-pool'']) \<and>
         snd (get_resource_pool_by_name api q calls) = calls @ [''vcenter/resource-pool'']"
proof -
  from get_resource_pools_unfiltered[of api calls] assms(1)
  have l: "get_resource_pools api None calls = (Inr listing, calls @ [''vcenter/resource-pool''])"
    by auto
  have r: "get_resource_pool_by_name api q calls =
             (find_resource_pool raws q, calls @ [''vcenter/resource-pool''])"
    by (simp add: get_resource_pool_by_name_def l assms(2))
  have "find_resource_pool raws q \<noteq> Inr (Some p)" for p
    using find_resource_pool_absent[OF assms(3)] .
  then have "get_vms_in_resource_pool api q calls = ([], calls @ [''vcenter/resource-pool''])"
    by (auto simp: get_vms_in_resource_pool_def r split: sum.splits option.splits)
  with r show ?thesis by simp
qed

text \<open>C6, witness: the listing holds \<open>pool-a\<close>, the query is \<open>pool-b\<close>.\<close>

theorem get_vms_in_resource_pool_absent_pool_witness:
  "get_vms_in_resource_pool
     (\<lambda>n endpoint. Body (JObj [(''value'',
        JList [JObj [(''resource_pool'', JStr ''resgroup-1''), (''name'', JStr ''pool-a'')]])]))
     ''pool-b'' [] = ([], [''vcenter/resource-pool''])"
proof -
  let ?api = "\<lambda>n endpoint. Body (JObj [(''value'',
        JList [JObj [(''resource_pool'', JStr ''resgroup-1''), (''name'', JStr ''pool-a'')]])])"
  let ?raws = "[JObj [(''resource_pool'', JStr ''resgroup-1''), (''name'', JStr ''pool-a'')]]"
  have l: "fst (get_resource_pools ?api None []) = Inr (JList ?raws)"
    by (simp add: example_pools)
  have i: "py_iter (JList ?raws) = Inr ?raws"
    by simp
  have a: "\<forall>raw \<in> set ?raws. py_get raw ''name'' JNull \<noteq> Inr (JStr ''pool-b'')"
    by simp
  from get_vms_in_resource_pool_absent_pool [OF l i a] show ?thesis
    by simp
qed

text \<open>
  C7. \<^verbatim>\<open>get_cluster_by_name\<close> returns the first cluster of the \<^verbatim>\<open>get_clusters\<close> list whose
  name is the queried string, compared exactly; it returns None exactly when no cluster of
  the list has that name; and a listing that holds \<open>Prod\<close> yields None for \<open>prod\<close>.
\<close>

theorem get_cluster_by_name_first_exact_match:
  "get_cluster_by_name api q calls =
     (List.find (\<lambda>c. name c = JStr q) (fst (get_clusters api calls)),
      snd (get_clusters api calls)) \<and>
   (fst (get_cluster_by_name api q calls) = None \<longleftrightarrow>
      JStr q \<notin> name ` set (fst (get_clusters api calls))) \<and>
   (\<forall>c. fst (get_cluster_by_name api q calls) = Some c \<longrightarrow>
      (\<exists>i < length (fst (get_clusters api calls)).
         fst (get_clusters api calls) ! i = c \<and> name c = JStr q \<and>
         (\<forall>j < i. name (fst (get_clusters api calls) ! j) \<noteq> JStr q))) \<and>
   fst (get_cluster_by_name
      (\<lambda>n endpoint. Body (JObj [(''value'',
         JList [JObj [(''cluster'', JStr ''c1''), (''name'', JStr ''Prod'')]])])) ''prod'' []) = None"
proof -
  let ?cs = "fst (get_clusters api calls)"
  have eq: "get_cluster_by_name api q calls =
     (List.find (\<lambda>c. name c = JStr q) ?cs, snd (get_clusters api calls))"
    by (simp add: get_cluster_by_name_def find_cluster_find split: prod.splits)
  have none: "fst (get_cluster_by_name api q calls) = None \<longleftrightarrow> JStr q \<notin> name ` set ?cs"
    unfolding eq by (auto simp: find_None_iff image_iff)
  have some: "\<exists>i < length ?cs. ?cs ! i = c \<and> name c = JStr q \<and> (\<forall>j < i. name (?cs ! j) \<noteq> JStr q)"
    if "fst (get_cluster_by_name api q calls) = Some c" for c
  proof -
    from that have "List.find (\<lambda>c. name c = JStr q) ?cs = Some c"
      unfolding eq by simp
    then obtain i where "i < length ?cs" "name (?cs ! i) = JStr q" "c = ?cs ! i"
      "\<forall>j < i. name (?cs ! j) \<noteq> JStr q"
      unfolding find_Some_iff by blast
    then show ?thesis by blast
  qed
  have ex: "fst (get_cluster_by_name
      (\<lambda>n endpoint. Body (JObj [(''value'',
         JList [JObj [(''cluster'', JStr ''c1''), (''name'', JStr ''Prod'')]])])) ''prod'' []) = None"
    by (simp add: get_cluster_by_name_def example_clusters)
  show ?thesis
    using some by (intro conjI allI impI) (rule eq, rule none, blast, rule ex)
qed

text \<open>C7, witness: the query \<open>Prod\<close> finds the cluster named \<open>Prod\<close>.\<close>

theorem get_cluster_by_name_first_exact_match_witness:
  "fst (get_cluster_by_name
      (\<lambda>n endpoint. Body (JObj [(''value'',
         JList [JObj [(''cluster'', JStr ''c1''), (''name'', JStr ''Prod'')]])])) ''Prod'' []) =
     Some \<lparr>cluster_id = JStr ''c1'', name = JStr ''Prod'', resource_pools = None\<rparr> \<and>
   name \<lparr>cluster_id = JStr ''c1'', name = JStr ''Prod'', resource_pools = None\<rparr> = JStr ''Prod''"
proof -
  let ?api = "\<lambda>n endpoint. Body (JObj [(''value'',
         JList [JObj [(''cluster'', JStr ''c1''), (''name'', JStr ''Prod'')]])])"
  let ?c = "\<lparr>cluster_id = JStr ''c1'', name = JStr ''Prod'', resource_pools = None\<rparr>"
  have found: "fst (get_cluster_by_name ?api ''Prod'' []) = Some ?c"
    by (simp add: get_cluster_by_name_def example_clusters)
  note first = get_cluster_by_name_first_exact_match [of ?api "''Prod''" "[]",
      THEN conjunct2, THEN conjunct2, THEN conjunct1, rule_format, OF found]
  from first have "name ?c = JStr ''Prod''" by blast
  with found show ?thesis by (rule conjI)
qed



end
